theory Spec2Isabelle
  imports Complex_Main
begin

section \<open>Python values\<close>

text \<open>
  A Python \<open>str\<close> is a sequence of Unicode code points, so a string is a list of
  natural numbers.  The character tables below (\<open>isspace\<close>, \<open>isdigit\<close>,
  \<open>isdecimal\<close>, \<open>lower\<close>, \<open>upper\<close>) are those of CPython for the code points below
  U+0180 (Basic Latin, Latin-1 Supplement, Latin Extended-A), which hold every letter
  of the Turkish alphabet and every character that the source passes to one of these
  methods; \<open>isspace\<close> is complete.  Code points from U+0180 on are carried through
  unchanged and are neither digits nor letters with a case.

  A Python \<open>float\<close> is modelled by a real number: arithmetic is exact, and rounding to
  binary64, infinities, NaN, negative zero and the size limits of the conversions
  \<open>int(str)\<close> and \<open>float(int)\<close> are outside the model.
\<close>

type_synonym ustr = "nat list"

definition asc :: "string \<Rightarrow> ustr" where
  "asc s = map of_char s"

datatype py_error = ValueError | ZeroDivisionError

definition py_isspace :: "nat \<Rightarrow> bool" where
  "py_isspace c \<longleftrightarrow>
     (9 \<le> c \<and> c \<le> 13) \<or> (28 \<le> c \<and> c \<le> 32) \<or> c = 133 \<or> c = 160 \<or> c = 5760 \<or>
     (8192 \<le> c \<and> c \<le> 8202) \<or> c = 8232 \<or> c = 8233 \<or> c = 8239 \<or> c = 8287 \<or>
     c = 12288"

definition py_isdecimal :: "nat \<Rightarrow> bool" where
  "py_isdecimal c \<longleftrightarrow> 48 \<le> c \<and> c \<le> 57"

definition py_isdigit :: "nat \<Rightarrow> bool" where
  \<comment> \<open>the decimal digits and the superscripts U+00B2, U+00B3, U+00B9\<close>
  "py_isdigit c \<longleftrightarrow> py_isdecimal c \<or> c = 178 \<or> c = 179 \<or> c = 185"

definition lower_cp :: "nat \<Rightarrow> ustr" where
  "lower_cp c =
     (if 65 \<le> c \<and> c \<le> 90 then [c + 32]
      else if 192 \<le> c \<and> c \<le> 222 \<and> c \<noteq> 215 then [c + 32]
      else if c = 304 then [105, 775]
      else if c = 376 then [255]
      else if (256 \<le> c \<and> c \<le> 311 \<or> 330 \<le> c \<and> c \<le> 375) \<and> even c then [c + 1]
      else if (313 \<le> c \<and> c \<le> 327 \<or> 377 \<le> c \<and> c \<le> 381) \<and> odd c then [c + 1]
      else [c])"

definition upper_cp :: "nat \<Rightarrow> ustr" where
  "upper_cp c =
     (if 97 \<le> c \<and> c \<le> 122 then [c - 32]
      else if 224 \<le> c \<and> c \<le> 254 \<and> c \<noteq> 247 then [c - 32]
      else if c = 181 then [924]
      else if c = 223 then [83, 83]
      else if c = 255 then [376]
      else if c = 305 then [73]
      else if c = 329 then [700, 78]
      else if c = 383 then [83]
      else if (256 \<le> c \<and> c \<le> 311 \<or> 330 \<le> c \<and> c \<le> 375) \<and> odd c then [c - 1]
      else if (313 \<le> c \<and> c \<le> 328 \<or> 377 \<le> c \<and> c \<le> 382) \<and> even c then [c - 1]
      else [c])"

definition py_lower :: "ustr \<Rightarrow> ustr" where
  "py_lower s = concat (map lower_cp s)"

definition py_upper :: "ustr \<Rightarrow> ustr" where
  "py_upper s = concat (map upper_cp s)"

definition py_strip :: "ustr \<Rightarrow> ustr" where
  "py_strip s = rev (dropWhile py_isspace (rev (dropWhile py_isspace s)))"

definition startswith :: "ustr \<Rightarrow> ustr \<Rightarrow> bool" where
  "startswith s p \<longleftrightarrow> take (length p) s = p"

definition endswith :: "ustr \<Rightarrow> ustr \<Rightarrow> bool" where
  "endswith s p \<longleftrightarrow> length p \<le> length s \<and> drop (length s - length p) s = p"

definition str_isdigit :: "ustr \<Rightarrow> bool" where
  \<comment> \<open>\<open>str.isdigit\<close>: every character is a digit and there is at least one\<close>
  "str_isdigit s \<longleftrightarrow> s \<noteq> [] \<and> list_all py_isdigit s"

definition dec_value :: "ustr \<Rightarrow> nat" where
  "dec_value s = foldl (\<lambda>a c. 10 * a + (c - 48)) 0 s"

definition py_int :: "ustr \<Rightarrow> py_error + int" where
  \<comment> \<open>\<open>int(s)\<close> on a non-empty string of digit characters, the only strings the
      source converts: a digit that is not decimal is an invalid literal\<close>
  "py_int s = (if list_all py_isdecimal s then Inr (int (dec_value s)) else Inl ValueError)"

definition py_float :: "ustr \<Rightarrow> py_error + real" where
  \<comment> \<open>\<open>float(s)\<close> on a non-empty string of digit characters\<close>
  "py_float s = (if list_all py_isdecimal s then Inr (real (dec_value s)) else Inl ValueError)"

section \<open>Helpers\<close>

definition gunde :: ustr where
  \<comment> \<open>the literal "g\"unde": g, U+00FC, n, d, e\<close>
  "gunde = [103, 252, 110, 100, 101]"

definition parse_frequency_to_doses_per_day :: "ustr \<Rightarrow> py_error + real option" where
  "parse_frequency_to_doses_per_day freq =
     (let f = filter (\<lambda>c. c \<noteq> 32) (py_lower (py_strip freq)) in
      if startswith f gunde then
        (let num = filter py_isdigit f in
         if num \<noteq> [] then
           (case py_float num of Inl e \<Rightarrow> Inl e | Inr v \<Rightarrow> Inr (Some v))
         else Inr None)
      else if f = asc ''od'' \<or> f = asc ''q24h'' then Inr (Some 1)
      else if startswith f (asc ''q'') \<and> endswith f (asc ''h'') then
        (let num = butlast (tl f) in
         if str_isdigit num then
           (case py_int num of
              Inl e \<Rightarrow> Inl e
            | Inr hours \<Rightarrow> if hours > 0 then Inr (Some (24 / real_of_int hours)) else Inr None)
         else Inr None)
      else Inr None)"

definition mosteller_bsa_m2 :: "real \<Rightarrow> real \<Rightarrow> py_error + real" where
  \<comment> \<open>\<open>math.sqrt\<close> raises ValueError on a negative argument\<close>
  "mosteller_bsa_m2 weight_kg height_cm =
     (let a = (height_cm * weight_kg) / 3600 in
      if a < 0 then Inl ValueError else Inr (sqrt a))"




fun py_join :: "ustr \<Rightarrow> ustr list \<Rightarrow> ustr" where
  "py_join sep [] = []"
| "py_join sep [x] = x"
| "py_join sep (x # y # ys) = x @ sep @ py_join sep (y # ys)"


section \<open>Number formatting\<close>

datatype pynum = PyInt int | PyFloat real

fun num_val :: "pynum \<Rightarrow> real" where
  "num_val (PyInt i) = real_of_int i"
| "num_val (PyFloat x) = x"

fun nat_digits :: "nat \<Rightarrow> ustr" where
  "nat_digits n = (if n < 10 then [48 + n] else nat_digits (n div 10) @ [48 + n mod 10])"

declare nat_digits.simps [simp del]

definition str_int :: "int \<Rightarrow> ustr" where
  "str_int i = (if i < 0 then 45 # nat_digits (nat (- i)) else nat_digits (nat i))"

definition py_str :: "(real \<Rightarrow> ustr) \<Rightarrow> pynum \<Rightarrow> ustr" where
  \<comment> \<open>\<open>str(x)\<close> as an f-string field \<open>{x}\<close> renders it. The shortest round-trip
      representation of a float is a property of binary64 and is taken as the
      parameter \<open>fs\<close>.\<close>
  "py_str fs n = (case n of PyInt i \<Rightarrow> str_int i | PyFloat x \<Rightarrow> fs x)"

definition round_half_even :: "real \<Rightarrow> int" where
  "round_half_even x =
     (let f = \<lfloor>x\<rfloor>; d = x - of_int f in
      if d < 1 / 2 then f else if d > 1 / 2 then f + 1 else if even f then f else f + 1)"

definition fmt0 :: "real \<Rightarrow> ustr" where
  \<comment> \<open>the format field \<open>{x:.0f}\<close>: the sign, then the magnitude rounded to an integer,
      ties to even\<close>
  "fmt0 x =
     (if x < 0 then 45 # nat_digits (nat (round_half_even (- x)))
      else nat_digits (nat (round_half_even x)))"

section \<open>Core models\<close>

record dose_rule =
  indication :: ustr
  route :: ustr
  frequency :: ustr
  mg_per_kg_per_day :: "pynum option"
  mg_per_kg_per_dose :: "pynum option"
  mg_per_m2_per_day :: "pynum option"
  mg_per_m2_per_dose :: "pynum option"
  max_mg_per_day :: "pynum option"
  max_mg_per_dose :: "pynum option"
  "notes" :: ustr

definition DoseRule :: "ustr \<Rightarrow> ustr \<Rightarrow> ustr \<Rightarrow> dose_rule" where
  \<comment> \<open>the constructor with every defaulted field at its default\<close>
  "DoseRule ind rt fr =
     \<lparr>indication = ind, route = rt, frequency = fr,
      mg_per_kg_per_day = None, mg_per_kg_per_dose = None,
      mg_per_m2_per_day = None, mg_per_m2_per_dose = None,
      max_mg_per_day = None, max_mg_per_dose = None, notes = []\<rparr>"

definition doses_per_day :: "dose_rule \<Rightarrow> py_error + real option" where
  "doses_per_day r = parse_frequency_to_doses_per_day (frequency r)"

definition needs_bsa :: "dose_rule \<Rightarrow> bool" where
  "needs_bsa r \<longleftrightarrow> mg_per_m2_per_day r \<noteq> None \<or> mg_per_m2_per_dose r \<noteq> None"

definition describe :: "(real \<Rightarrow> ustr) \<Rightarrow> dose_rule \<Rightarrow> ustr" where
  "describe fs r =
     (let parts =
        (case mg_per_kg_per_day r of None \<Rightarrow> []
         | Some v \<Rightarrow> [py_str fs v @ asc '' mg/kg/g'' @ [252] @ asc ''n'']) @
        (case mg_per_kg_per_dose r of None \<Rightarrow> []
         | Some v \<Rightarrow> [py_str fs v @ asc '' mg/kg/doz'']) @
        (case mg_per_m2_per_day r of None \<Rightarrow> []
         | Some v \<Rightarrow> [py_str fs v @ asc '' mg/m'' @ [178] @ asc ''/g'' @ [252] @ asc ''n''])
      in py_join (asc '' / '') parts @ asc '', '' @ route r @ asc '', '' @ frequency r)"

record drug =
  name :: ustr
  rules :: "dose_rule list"

definition Drug :: "ustr \<Rightarrow> drug" where
  "Drug n = \<lparr>name = n, rules = []\<rparr>"

definition add_rule :: "drug \<Rightarrow> dose_rule \<Rightarrow> drug" where
  "add_rule d r = d\<lparr>rules := rules d @ [r]\<rparr>"

fun setdefault_append :: "(ustr \<times> dose_rule list) list \<Rightarrow> ustr \<Rightarrow> dose_rule \<Rightarrow>
    (ustr \<times> dose_rule list) list" where
  \<comment> \<open>\<open>d.setdefault(k, []).append(r)\<close> on an insertion-ordered dict\<close>
  "setdefault_append [] k r = [(k, [r])]"
| "setdefault_append ((k', rs) # d) k r =
     (if k' = k then (k', rs @ [r]) # d else (k', rs) # setdefault_append d k r)"

definition rules_by_indication :: "drug \<Rightarrow> (ustr \<times> dose_rule list) list" where
  "rules_by_indication d = foldl (\<lambda>acc r. setdefault_append acc (indication r) r) [] (rules d)"

record patient =
  weight_kg :: real
  height_cm :: "real option"

definition bsa_weight_only_m2 :: "patient \<Rightarrow> py_error + real" where
  "bsa_weight_only_m2 pt =
     (let w = weight_kg pt in
      if w + 90 = 0 then Inl ZeroDivisionError else Inr (((w * 4) + 7) / (w + 90)))"

section \<open>Calc\<close>

definition truthy :: "pynum option \<Rightarrow> bool" where
  \<comment> \<open>the truth value of an optional number: None and zero are false\<close>
  "truthy v = (case v of None \<Rightarrow> False | Some n \<Rightarrow> num_val n \<noteq> 0)"

definition calc_amounts :: "dose_rule \<Rightarrow> patient \<Rightarrow> py_error + (real \<times> real) option" where
  \<comment> \<open>the locals \<open>(mg_dose, mg_day)\<close> of \<open>calc_rule\<close>, when its branch is taken\<close>
  "calc_amounts r pt =
     (case doses_per_day r of
        Inl e \<Rightarrow> Inl e
      | Inr dpd \<Rightarrow>
          if truthy (mg_per_kg_per_day r) then
            (let mg_day = num_val (the (mg_per_kg_per_day r)) * weight_kg pt;
                 mg_dose = (case dpd of
                              None \<Rightarrow> mg_day
                            | Some n \<Rightarrow> if n \<noteq> 0 then mg_day / n else mg_day)
             in Inr (Some (mg_dose, mg_day)))
          else Inr None)"

definition arrow :: ustr where
  \<comment> \<open>U+2192 and a space\<close>
  "arrow = [8594, 32]"

definition calc_rule :: "dose_rule \<Rightarrow> patient \<Rightarrow> py_error + ustr list" where
  "calc_rule r pt =
     (case calc_amounts r pt of
        Inl e \<Rightarrow> Inl e
      | Inr None \<Rightarrow> Inr []
      | Inr (Some (mg_dose, mg_day)) \<Rightarrow>
          Inr [arrow @ fmt0 mg_dose @ asc '' mg/doz'',
               arrow @ fmt0 mg_day @ asc '' mg/g'' @ [252] @ asc ''n''])"

section \<open>Registry\<close>

type_synonym registry = "ustr \<rightharpoonup> drug"

definition register :: "drug \<Rightarrow> registry \<Rightarrow> registry" where
  "register d reg = reg(py_lower (name d) \<mapsto> d)"

definition lookup :: "registry \<Rightarrow> ustr \<Rightarrow> drug option" where
  \<comment> \<open>the expression \<open>REGISTRY.get(drug_query.lower())\<close> of \<open>compute_text\<close>\<close>
  "lookup reg drug_query = reg (py_lower drug_query)"

definition amp :: drug where
  "amp =
     add_rule
       (add_rule (Drug (asc ''Ampisilin Sulbaktam''))
          ((DoseRule (asc ''genel'') (asc ''IV'') (asc ''q6h''))
             \<lparr>mg_per_kg_per_day := Some (PyInt 100)\<rparr>))
       ((DoseRule (asc ''genel'') (asc ''IV'') (asc ''q6h''))
          \<lparr>mg_per_kg_per_day := Some (PyInt 200)\<rparr>)"

definition REGISTRY :: registry where
  "REGISTRY = register amp Map.empty"

section \<open>Compute text\<close>

definition not_found_msg :: ustr where
  \<comment> \<open>the Turkish for "drug not found": U+0130 and U+0131 are the dotted capital and
      the dotless small i, U+00E7 the c-cedilla\<close>
  "not_found_msg = [304] @ asc ''la'' @ [231] @ asc '' bulunamad'' @ [305] @ asc ''.''"

fun rule_lines :: "(real \<Rightarrow> ustr) \<Rightarrow> patient \<Rightarrow> dose_rule list \<Rightarrow> py_error + ustr list" where
  \<comment> \<open>the inner loop \<open>for r in rules\<close>\<close>
  "rule_lines fs pt [] = Inr []"
| "rule_lines fs pt (r # rs) =
     (case calc_rule r pt of
        Inl e \<Rightarrow> Inl e
      | Inr xs \<Rightarrow>
          (case rule_lines fs pt rs of
             Inl e \<Rightarrow> Inl e
           | Inr ls \<Rightarrow> Inr ((asc ''  '' @ describe fs r) # map (\<lambda>x. asc ''   '' @ x) xs @ ls)))"

fun group_lines :: "(real \<Rightarrow> ustr) \<Rightarrow> patient \<Rightarrow> (ustr \<times> dose_rule list) list \<Rightarrow>
    py_error + ustr list" where
  \<comment> \<open>the outer loop over the items of \<open>rules_by_indication()\<close>\<close>
  "group_lines fs pt [] = Inr []"
| "group_lines fs pt ((ind, rs) # gs) =
     (case rule_lines fs pt rs of
        Inl e \<Rightarrow> Inl e
      | Inr ls \<Rightarrow>
          (case group_lines fs pt gs of
             Inl e \<Rightarrow> Inl e
           | Inr ms \<Rightarrow> Inr (([10] @ py_upper ind @ asc '':'') # ls @ ms)))"

definition compute_text :: "(real \<Rightarrow> ustr) \<Rightarrow> registry \<Rightarrow> real \<Rightarrow> ustr \<Rightarrow> py_error + ustr" where
  "compute_text fs reg weight drug_query =
     (let pt = \<lparr>weight_kg = weight, height_cm = None\<rparr> in
      case lookup reg drug_query of
        None \<Rightarrow> Inr not_found_msg
      | Some d \<Rightarrow>
          (case group_lines fs pt (rules_by_indication d) of
             Inl e \<Rightarrow> Inl e
           | Inr ls \<Rightarrow>
               Inr (py_join [10]
                      (([304, 76, 65, 199] @ asc '': '' @ name d) #
                       (asc ''Kilo: '' @ fs weight @ asc '' kg'') # ls))))"

section \<open>Notions of the specification\<close>

definition same_letter :: "nat \<Rightarrow> nat \<Rightarrow> bool" where
  \<comment> \<open>two characters that are equal up to letter case\<close>
  "same_letter a b \<longleftrightarrow> lower_cp a = lower_cp b"

definition eq_up_to_case :: "ustr \<Rightarrow> ustr \<Rightarrow> bool" where
  \<comment> \<open>two strings of the same length that agree, position by position, up to letter
      case\<close>
  "eq_up_to_case s t \<longleftrightarrow> list_all2 same_letter s t"

primrec first_seen :: "'a list \<Rightarrow> 'a list" where
  \<comment> \<open>the distinct elements of a list, each at the place of its first occurrence\<close>
  "first_seen [] = []"
| "first_seen (x # xs) = x # filter (\<lambda>y. y \<noteq> x) (first_seen xs)"

definition grouped :: "dose_rule list \<Rightarrow> (ustr \<times> dose_rule list) list" where
  \<comment> \<open>the rules grouped by indication: the indications in first-seen order, each with
      its rules in their original order\<close>
  "grouped rs =
     map (\<lambda>k. (k, filter (\<lambda>r. indication r = k) rs)) (first_seen (map indication rs))"

definition rule_block :: "(real \<Rightarrow> ustr) \<Rightarrow> patient \<Rightarrow> dose_rule \<Rightarrow> ustr list" where
  \<comment> \<open>the lines of one rule in the report: its description, then its computed lines\<close>
  "rule_block fs pt r =
     (asc ''  '' @ describe fs r) # map (\<lambda>x. asc ''   '' @ x) (projr (calc_rule r pt))"

definition indication_block ::
  "(real \<Rightarrow> ustr) \<Rightarrow> patient \<Rightarrow> ustr \<times> dose_rule list \<Rightarrow> ustr list" where
  \<comment> \<open>the lines of one indication: the header, then the blocks of its rules\<close>
  "indication_block fs pt g =
     ([10] @ py_upper (fst g) @ asc '':'') # concat (map (rule_block fs pt) (snd g))"

definition rule_100 :: dose_rule where
  \<comment> \<open>the first rule of the seeded entry\<close>
  "rule_100 = (DoseRule (asc ''genel'') (asc ''IV'') (asc ''q6h''))
                \<lparr>mg_per_kg_per_day := Some (PyInt 100)\<rparr>"

definition rule_200 :: dose_rule where
  \<comment> \<open>the second rule of the seeded entry\<close>
  "rule_200 = (DoseRule (asc ''genel'') (asc ''IV'') (asc ''q6h''))
                \<lparr>mg_per_kg_per_day := Some (PyInt 200)\<rparr>"

definition squeezed :: "ustr \<Rightarrow> ustr" where
  \<comment> \<open>the local \<open>f\<close> of \<open>parse_frequency_to_doses_per_day\<close>: the input trimmed,
      lower-cased and without space characters\<close>
  "squeezed freq = filter (\<lambda>c. c \<noteq> 32) (py_lower (py_strip freq))"


definition str_isdecimal :: "ustr \<Rightarrow> bool" where
  \<comment> \<open>a non-empty run of decimal digits\<close>
  "str_isdecimal s \<longleftrightarrow> s \<noteq> [] \<and> list_all py_isdecimal s"

definition claimed_doses_per_day :: "ustr \<Rightarrow> real option" where
  \<comment> \<open>the parser as claim C2 words it: after lower-casing and removal of all whitespace,
      the token followed by a number gives that number, \<open>od\<close> and \<open>q24h\<close> give 1,
      \<open>q<N>h\<close> with positive \<open>N\<close> gives \<open>24 / N\<close>, every other string is not
      parseable\<close>
  "claimed_doses_per_day s =
     (let f = filter (\<lambda>c. \<not> py_isspace c) (py_lower s) in
      if startswith f gunde \<and> str_isdecimal (drop (length gunde) f)
        then Some (real (dec_value (drop (length gunde) f)))
      else if f = asc ''od'' \<or> f = asc ''q24h'' then Some 1
      else if startswith f (asc ''q'') \<and> endswith f (asc ''h'') \<and>
              str_isdecimal (butlast (tl f)) \<and> 0 < dec_value (butlast (tl f))
        then Some (24 / real (dec_value (butlast (tl f))))
      else None)"

section \<open>Evaluation lemmas\<close>

lemmas str_defs = asc_def py_strip_def py_lower_def py_upper_def lower_cp_def upper_cp_def
  py_isspace_def py_isdigit_def py_isdecimal_def startswith_def endswith_def str_isdigit_def
  dec_value_def py_int_def py_float_def gunde_def

lemma parse_q6h: "parse_frequency_to_doses_per_day (asc ''q6h'') = Inr (Some 4)"
  by (simp add: parse_frequency_to_doses_per_day_def str_defs)

lemma fmt0_250: "fmt0 250 = asc ''250''"
  by (simp add: fmt0_def round_half_even_def nat_digits.simps asc_def)

lemma fmt0_1000: "fmt0 1000 = asc ''1000''"
  by (simp add: fmt0_def round_half_even_def nat_digits.simps asc_def)

lemma sqrt_1600_3600: "sqrt (1600 / 3600) = 2 / 3"
  by (rule real_sqrt_unique) (simp_all add: power2_eq_square)

section \<open>The dose calculator\<close>

text \<open>
  Claim C1. A rule with \<open>mg_per_kg_per_day = 100\<close> and frequency \<open>q6h\<close>, applied to a
  patient of 10 kg, gives 4 doses per day, a day total of 1000 mg and 250 mg per dose;
  the two lines returned by \<open>calc_rule\<close> show these figures, the dose first.
\<close>

theorem calc_rule_q6h_example:
  assumes "mg_per_kg_per_day r = Some n" and "num_val n = 100"
    and "frequency r = asc ''q6h''" and "weight_kg pt = 10"
  shows "doses_per_day r = Inr (Some 4) \<and>
         calc_amounts r pt = Inr (Some (250, 1000)) \<and>
         calc_rule r pt =
           Inr [arrow @ asc ''250 mg/doz'', arrow @ asc ''1000 mg/g'' @ [252] @ asc ''n'']"
proof -
  have d: "doses_per_day r = Inr (Some 4)"
    using assms(3) by (simp add: doses_per_day_def parse_q6h)
  have a: "calc_amounts r pt = Inr (Some (250, 1000))"
    using assms d by (simp add: calc_amounts_def truthy_def)
  have c: "calc_rule r pt =
           Inr [arrow @ asc ''250 mg/doz'', arrow @ asc ''1000 mg/g'' @ [252] @ asc ''n'']"
    by (simp add: calc_rule_def a fmt0_250 fmt0_1000 asc_def)
  from d a c show ?thesis by simp
qed

theorem calc_rule_q6h_example_witness:
  "calc_rule ((DoseRule (asc ''genel'') (asc ''IV'') (asc ''q6h''))
                \<lparr>mg_per_kg_per_day := Some (PyInt 100)\<rparr>)
             \<lparr>weight_kg = 10, height_cm = None\<rparr> =
     Inr [arrow @ asc ''250 mg/doz'', arrow @ asc ''1000 mg/g'' @ [252] @ asc ''n'']"
  using calc_rule_q6h_example
    [of "(DoseRule (asc ''genel'') (asc ''IV'') (asc ''q6h''))
           \<lparr>mg_per_kg_per_day := Some (PyInt 100)\<rparr>" "PyInt 100"
        "\<lparr>weight_kg = 10, height_cm = None\<rparr>"]
  by (simp add: DoseRule_def)

text \<open>
  Claim C4. Two rules that differ only in \<open>max_mg_per_day\<close> and \<open>max_mg_per_dose\<close> give
  the same result for every patient, amounts and lines alike, an error included: the
  ceilings are never read.
\<close>

theorem ceilings_not_applied:
  "calc_rule (r\<lparr>max_mg_per_day := a, max_mg_per_dose := b\<rparr>) pt = calc_rule r pt \<and>
   calc_amounts (r\<lparr>max_mg_per_day := a, max_mg_per_dose := b\<rparr>) pt = calc_amounts r pt"
proof -
  have "calc_amounts (r\<lparr>max_mg_per_day := a, max_mg_per_dose := b\<rparr>) pt = calc_amounts r pt"
    by (simp add: calc_amounts_def doses_per_day_def split: sum.splits)
  then show ?thesis by (simp add: calc_rule_def)
qed

theorem ceilings_not_applied_witness:
  "calc_rule ((DoseRule (asc ''genel'') (asc ''IV'') (asc ''q6h''))
                \<lparr>mg_per_kg_per_day := Some (PyInt 100),
                 max_mg_per_day := Some (PyInt 1), max_mg_per_dose := Some (PyInt 1)\<rparr>)
             \<lparr>weight_kg = 10, height_cm = None\<rparr> =
   calc_rule ((DoseRule (asc ''genel'') (asc ''IV'') (asc ''q6h''))
                \<lparr>mg_per_kg_per_day := Some (PyInt 100)\<rparr>)
             \<lparr>weight_kg = 10, height_cm = None\<rparr>"
  using ceilings_not_applied
    [where r = "(DoseRule (asc ''genel'') (asc ''IV'') (asc ''q6h''))
                  \<lparr>mg_per_kg_per_day := Some (PyInt 100)\<rparr>"
       and a = "Some (PyInt 1)" and b = "Some (PyInt 1)"
       and pt = "\<lparr>weight_kg = 10, height_cm = None\<rparr>"]
  by simp

section \<open>The report\<close>

text \<open>
  Claim C7. When the lookup of the query in the registry misses, \<open>compute_text\<close>
  returns the fixed not-found message as an ordinary result, whatever the weight; no
  exception is raised.
\<close>

theorem lookup_miss_not_found:
  assumes "lookup reg drug_query = None"
  shows "compute_text fs reg weight drug_query = Inr not_found_msg"
  using assms by (simp add: compute_text_def)

theorem lookup_miss_not_found_witness:
  "compute_text (\<lambda>x. asc ''10.0'') REGISTRY 10 (asc ''nonexistent-drug'') = Inr not_found_msg"
proof -
  have "lookup REGISTRY (asc ''nonexistent-drug'') = None"
    by (simp add: lookup_def REGISTRY_def register_def amp_def add_rule_def Drug_def str_defs)
  then show ?thesis by (rule lookup_miss_not_found)
qed

section \<open>Body surface area\<close>

text \<open>
  Claim C9. For positive weight and height the Mosteller estimate is the square root of
  \<open>height * weight / 3600\<close> and the weight-only surrogate is
  \<open>(4 * weight + 7) / (weight + 90)\<close>; neither raises. At 16 kg and 100 cm the first
  is 2/3, within a thousandth of 0.667, and at 10 kg the second is 0.47.
\<close>

theorem bsa_formulas:
  assumes "0 < w" and "0 < h"
  shows "mosteller_bsa_m2 w h = Inr (sqrt ((h * w) / 3600)) \<and>
         bsa_weight_only_m2 \<lparr>weight_kg = w, height_cm = ho\<rparr> = Inr (((w * 4) + 7) / (w + 90))"
proof -
  from assms have "0 < h * w" by simp
  then have "\<not> (h * w) / 3600 < 0" by simp
  with assms show ?thesis by (simp add: mosteller_bsa_m2_def bsa_weight_only_m2_def)
qed

theorem bsa_formulas_witness:
  "mosteller_bsa_m2 16 100 = Inr (2 / 3) \<and> \<bar>2 / 3 - 0.667\<bar> < (0.001 :: real) \<and>
   bsa_weight_only_m2 \<lparr>weight_kg = 10, height_cm = None\<rparr> = Inr 0.47"
  using bsa_formulas [of 16 100 None] bsa_formulas [of 10 1 None] sqrt_1600_3600 by simp

section \<open>The registry\<close>

lemma eq_up_to_case_lower: "list_all2 same_letter s t \<Longrightarrow> py_lower s = py_lower t"
  by (induction rule: list_all2_induct) (simp_all add: py_lower_def same_letter_def)

lemma lower_cp_single: "c \<noteq> 304 \<Longrightarrow> \<exists>x. lower_cp c = [x]"
  by (simp add: lower_cp_def)

lemma lower_singletons:
  "775 \<notin> set t \<Longrightarrow> py_lower s = t \<Longrightarrow> list_all2 (\<lambda>c x. lower_cp c = [x]) s t"
proof (induction s arbitrary: t)
  case Nil
  then show ?case by (simp add: py_lower_def)
next
  case (Cons c cs)
  have eq: "lower_cp c @ py_lower cs = t" using Cons.prems(2) by (simp add: py_lower_def)
  have "c \<noteq> 304"
  proof
    assume "c = 304"
    then have "lower_cp c = [105, 775]" by (simp add: lower_cp_def)
    with eq have "775 \<in> set t" by auto
    with Cons.prems(1) show False by simp
  qed
  then obtain x where x: "lower_cp c = [x]" using lower_cp_single by blast
  with eq have t: "t = x # py_lower cs" by simp
  with Cons.prems(1) have "775 \<notin> set (py_lower cs)" by simp
  then have "list_all2 (\<lambda>c x. lower_cp c = [x]) cs (py_lower cs)" by (rule Cons.IH) simp
  with x t show ?case by simp
qed

lemma amp_name_lower: "py_lower (asc ''Ampisilin Sulbaktam'') = asc ''ampisilin sulbaktam''"
  by (simp add: str_defs)

lemma REGISTRY_eq: "REGISTRY = [asc ''ampisilin sulbaktam'' \<mapsto> amp]"
  by (simp add: REGISTRY_def register_def amp_def add_rule_def Drug_def amp_name_lower)



lemma lookup_REGISTRY:
  "lookup REGISTRY q = (if eq_up_to_case q (asc ''Ampisilin Sulbaktam'') then Some amp else None)"
proof (cases "py_lower q = asc ''ampisilin sulbaktam''")
  case True
  have "775 \<notin> set (asc ''ampisilin sulbaktam'')" by (simp add: asc_def)
  then have 1: "list_all2 (\<lambda>c x. lower_cp c = [x]) q (asc ''ampisilin sulbaktam'')"
    using True by (rule lower_singletons)
  have 2: "list_all2 (\<lambda>x n. lower_cp n = [x]) (asc ''ampisilin sulbaktam'')
             (asc ''Ampisilin Sulbaktam'')"
    by (simp add: asc_def lower_cp_def)
  have "list_all2 same_letter q (asc ''Ampisilin Sulbaktam'')"
    by (rule list_all2_trans [OF _ 1 2]) (simp add: same_letter_def)
  then show ?thesis using True by (simp add: eq_up_to_case_def lookup_def REGISTRY_eq)
next
  case False
  have "\<not> eq_up_to_case q (asc ''Ampisilin Sulbaktam'')"
  proof
    assume "eq_up_to_case q (asc ''Ampisilin Sulbaktam'')"
    then have "py_lower q = py_lower (asc ''Ampisilin Sulbaktam'')"
      unfolding eq_up_to_case_def by (rule eq_up_to_case_lower)
    with False show False by (simp add: amp_name_lower)
  qed
  with False show ?thesis by (simp add: lookup_def REGISTRY_eq)
qed



section \<open>The structure of the report\<close>

lemma first_seen_set [simp]: "set (first_seen xs) = set xs"
  by (induction xs) auto

lemma first_seen_distinct [simp]: "distinct (first_seen xs)"
  by (induction xs) auto

lemma filter_first_seen: "filter P (first_seen xs) = first_seen (filter P xs)"
proof (induction xs)
  case Nil
  then show ?case by simp
next
  case (Cons x xs)
  have "filter P (filter (\<lambda>y. y \<noteq> x) (first_seen xs)) =
        filter (\<lambda>y. y \<noteq> x) (filter P (first_seen xs))"
    by (simp add: conj_commute)
  then have comm: "filter P (filter (\<lambda>y. y \<noteq> x) (first_seen xs)) =
        filter (\<lambda>y. y \<noteq> x) (first_seen (filter P xs))"
    by (simp only: Cons.IH)
  show ?case
  proof (cases "P x")
    case True
    with comm show ?thesis by simp
  next
    case False
    then have "x \<notin> set (first_seen (filter P xs))" by simp
    then have "filter (\<lambda>y. y \<noteq> x) (first_seen (filter P xs)) = first_seen (filter P xs)"
      by (simp add: filter_id_conv) blast
    with comm False show ?thesis by simp
  qed
qed

lemma first_seen_snoc:
  "first_seen (xs @ [x]) = (if x \<in> set xs then first_seen xs else first_seen xs @ [x])"
proof (induction xs)
  case Nil
  then show ?case by simp
next
  case (Cons y ys)
  show ?case
  proof (cases "x = y")
    case True
    have "filter (\<lambda>z. z \<noteq> y) (first_seen (ys @ [y])) = filter (\<lambda>z. z \<noteq> y) (first_seen ys)"
      by (simp add: filter_first_seen)
    with True show ?thesis by simp
  next
    case False
    with Cons show ?thesis by simp
  qed
qed

lemma setdefault_append_map:
  "distinct ks \<Longrightarrow>
   setdefault_append (map (\<lambda>k. (k, f k)) ks) k r =
     (if k \<in> set ks then map (\<lambda>k'. (k', if k' = k then f k' @ [r] else f k')) ks
      else map (\<lambda>k. (k, f k)) ks @ [(k, [r])])"
  by (induction ks) auto

lemma grouped_snoc:
  "grouped (rs @ [r]) = setdefault_append (grouped rs) (indication r) r"
proof -
  let ?ks = "first_seen (map indication rs)"
  let ?f = "\<lambda>k. filter (\<lambda>r. indication r = k) rs"
  have sd: "setdefault_append (grouped rs) (indication r) r =
     (if indication r \<in> set ?ks
      then map (\<lambda>k'. (k', if k' = indication r then ?f k' @ [r] else ?f k')) ?ks
      else map (\<lambda>k. (k, ?f k)) ?ks @ [(indication r, [r])])"
    unfolding grouped_def by (rule setdefault_append_map) simp
  show ?thesis
  proof (cases "indication r \<in> set (map indication rs)")
    case True
    then have "grouped (rs @ [r]) =
       map (\<lambda>k'. (k', if k' = indication r then ?f k' @ [r] else ?f k')) ?ks"
      by (auto simp add: grouped_def first_seen_snoc)
    with True sd show ?thesis by simp
  next
    case False
    have ne: "indication x \<noteq> indication r" if "x \<in> set rs" for x
    proof
      assume "indication x = indication r"
      with that have "indication r \<in> set (map indication rs)" by (metis image_eqI set_map)
      with False show False by simp
    qed
    then have nf: "?f (indication r) = []" by (simp add: filter_empty_conv)
    from False have "indication r \<notin> set ?ks" by simp
    then have "\<And>k. k \<in> set ?ks \<Longrightarrow> k \<noteq> indication r" by metis
    then have "map (\<lambda>k. (k, filter (\<lambda>r. indication r = k) (rs @ [r]))) ?ks =
               map (\<lambda>k. (k, ?f k)) ?ks" by auto
    with False nf have "grouped (rs @ [r]) = map (\<lambda>k. (k, ?f k)) ?ks @ [(indication r, [r])]"
      by (simp add: grouped_def first_seen_snoc)
    with False sd show ?thesis by simp
  qed
qed

lemma rules_by_indication_grouped: "rules_by_indication d = grouped (rules d)"
proof -
  have "foldl (\<lambda>acc r. setdefault_append acc (indication r) r) [] rs = grouped rs" for rs
  proof (induction rs rule: rev_induct)
    case Nil
    show ?case by (simp add: grouped_def)
  next
    case (snoc r rs)
    then show ?case by (simp add: grouped_snoc)
  qed
  then show ?thesis by (simp add: rules_by_indication_def)
qed


lemma rule_lines_ok:
  "\<forall>r\<in>set rs. \<not> isl (calc_rule r pt) \<Longrightarrow>
   rule_lines fs pt rs = Inr (concat (map (rule_block fs pt) rs))"
proof (induction rs)
  case Nil
  show ?case by simp
next
  case (Cons r rs)
  from Cons.prems obtain xs where xs: "calc_rule r pt = Inr xs"
    by (cases "calc_rule r pt") auto
  from xs have rb: "rule_block fs pt r =
      (asc ''  '' @ describe fs r) # map (\<lambda>x. asc ''   '' @ x) xs"
    by (simp add: rule_block_def)
  from Cons have "rule_lines fs pt rs = Inr (concat (map (rule_block fs pt) rs))" by simp
  with xs rb show ?case by simp
qed

lemma group_lines_ok:
  "\<forall>g\<in>set gs. \<forall>r\<in>set (snd g). \<not> isl (calc_rule r pt) \<Longrightarrow>
   group_lines fs pt gs = Inr (concat (map (indication_block fs pt) gs))"
proof (induction gs)
  case Nil
  show ?case by simp
next
  case (Cons g gs)
  obtain ind rs where g: "g = (ind, rs)" by (cases g)
  with Cons.prems have "\<forall>r\<in>set rs. \<not> isl (calc_rule r pt)" by simp
  then have 1: "rule_lines fs pt rs = Inr (concat (map (rule_block fs pt) rs))"
    by (rule rule_lines_ok)
  from Cons have 2: "group_lines fs pt gs = Inr (concat (map (indication_block fs pt) gs))"
    by simp
  have ib: "indication_block fs pt (ind, rs) =
      ([10] @ py_upper ind @ asc '':'') # concat (map (rule_block fs pt) rs)"
    by (simp add: indication_block_def)
  from g 1 2 ib show ?case by simp
qed

lemma grouped_members: "g \<in> set (grouped rs) \<Longrightarrow> set (snd g) \<subseteq> set rs"
  by (auto simp add: grouped_def)

lemma grouped_pair:
  "indication r1 = indication r2 \<Longrightarrow> grouped [r1, r2] = [(indication r1, [r1, r2])]"
  by (simp add: grouped_def)

lemma calc_amounts_amp:
  "calc_amounts rule_100 \<lparr>weight_kg = 10, height_cm = None\<rparr> = Inr (Some (250, 1000))"
  "calc_amounts rule_200 \<lparr>weight_kg = 10, height_cm = None\<rparr> = Inr (Some (500, 2000))"
  by (simp_all add: rule_100_def rule_200_def calc_amounts_def doses_per_day_def DoseRule_def
      parse_q6h truthy_def)

lemma calc_rule_amp:
  "calc_rule rule_100 \<lparr>weight_kg = 10, height_cm = None\<rparr> =
     Inr [arrow @ asc ''250 mg/doz'', arrow @ asc ''1000 mg/g'' @ [252] @ asc ''n'']"
  "calc_rule rule_200 \<lparr>weight_kg = 10, height_cm = None\<rparr> =
     Inr [arrow @ asc ''500 mg/doz'', arrow @ asc ''2000 mg/g'' @ [252] @ asc ''n'']"
  by (simp_all add: calc_rule_def calc_amounts_amp fmt0_def round_half_even_def
      nat_digits.simps asc_def)

lemma describe_amp:
  "describe fs rule_100 = asc ''100 mg/kg/g'' @ [252] @ asc ''n, IV, q6h''"
  "describe fs rule_200 = asc ''200 mg/kg/g'' @ [252] @ asc ''n, IV, q6h''"
  by (simp_all add: rule_100_def rule_200_def describe_def py_str_def str_int_def
      nat_digits.simps DoseRule_def asc_def)

lemma rules_amp: "rules amp = [rule_100, rule_200]"
  by (simp add: amp_def add_rule_def Drug_def rule_100_def rule_200_def)

lemma lookup_amp_upper: "lookup REGISTRY (asc ''AMPISILIN SULBAKTAM'') = Some amp"
  by (simp add: lookup_REGISTRY eq_up_to_case_def same_letter_def lower_cp_def asc_def)

text \<open>
  Claim C5. A registered drug one of whose rules has a frequency \<open>q<N>h\<close> with the
  superscript two for \<open>N\<close>: the claim gives a grouped report, headers and blocks in
  order; \<open>compute_text\<close> raises ValueError when it calculates that rule and returns no
  report at all.
\<close>

theorem report_raises_on_superscript_frequency:
  "compute_text fs
     (register
        (add_rule (Drug (asc ''x''))
           ((DoseRule (asc ''genel'') (asc ''IV'') (asc ''q'' @ [178] @ asc ''h''))
              \<lparr>mg_per_kg_per_day := Some (PyInt 100)\<rparr>))
        REGISTRY)
     weight (asc ''X'') = Inl ValueError"
proof -
  define r where "r = (DoseRule (asc ''genel'') (asc ''IV'') (asc ''q'' @ [178] @ asc ''h''))
              \<lparr>mg_per_kg_per_day := Some (PyInt 100)\<rparr>"
  define d where "d = add_rule (Drug (asc ''x'')) r"
  have p: "parse_frequency_to_doses_per_day (asc ''q'' @ [178] @ asc ''h'') = Inl ValueError"
    by (simp add: parse_frequency_to_doses_per_day_def str_defs)
  have c: "calc_rule r pt = Inl ValueError" for pt
    using p by (simp add: r_def calc_rule_def calc_amounts_def doses_per_day_def DoseRule_def)
  have g: "rules_by_indication d = [(indication r, [r])]"
    by (simp add: d_def rules_by_indication_def add_rule_def Drug_def)
  have gl: "group_lines fs pt (rules_by_indication d) = Inl ValueError" for pt
    by (simp add: g c)
  have l: "lookup (register d REGISTRY) (asc ''X'') = Some d"
    by (simp add: lookup_def register_def d_def add_rule_def Drug_def str_defs)
  have "compute_text fs (register d REGISTRY) weight (asc ''X'') = Inl ValueError"
    by (simp add: compute_text_def l gl)
  then show ?thesis by (simp only: d_def r_def)
qed

section \<open>The frequency parser\<close>





















lemma missing_basis_no_lines:
  assumes "doses_per_day r = Inr d" and "mg_per_kg_per_day r = None"
  shows "calc_rule r pt = Inr [] \<and> rule_block fs pt r = [asc ''  '' @ describe fs r]"
  using assms by (simp add: calc_rule_def calc_amounts_def truthy_def rule_block_def)




text \<open>
  Claim C10. A string that begins with the token and holds a digit character that is not
  a decimal digit: the claim gives a number or not parseable, the parser raises
  ValueError, because \<open>isdigit\<close> admits the superscript two and \<open>float\<close> does not.
\<close>

theorem parse_gunde_superscript_raises:
  "startswith (squeezed (gunde @ [178])) gunde \<and>
   parse_frequency_to_doses_per_day (gunde @ [178]) = Inl ValueError"
  by (simp add: parse_frequency_to_doses_per_day_def squeezed_def str_defs)

section \<open>Degraded inputs of the dose calculator\<close>

text \<open>
  Claim C3. A rule with a mg/kg/day rate whose frequency matches none of the three forms
  because its \<open>N\<close> is the superscript two: the claim gives the day total as the dose
  and no error; \<open>calc_rule\<close> raises ValueError.
\<close>

theorem unparseable_frequency_raises:
  "claimed_doses_per_day (asc ''q'' @ [178] @ asc ''h'') = None \<and>
   calc_rule ((DoseRule (asc ''genel'') (asc ''IV'') (asc ''q'' @ [178] @ asc ''h''))
                \<lparr>mg_per_kg_per_day := Some (PyInt 100)\<rparr>) pt = Inl ValueError"
proof -
  have "parse_frequency_to_doses_per_day (asc ''q'' @ [178] @ asc ''h'') = Inl ValueError"
    by (simp add: parse_frequency_to_doses_per_day_def str_defs)
  then have "calc_rule ((DoseRule (asc ''genel'') (asc ''IV'') (asc ''q'' @ [178] @ asc ''h''))
                \<lparr>mg_per_kg_per_day := Some (PyInt 100)\<rparr>) pt = Inl ValueError"
    by (simp add: calc_rule_def calc_amounts_def doses_per_day_def DoseRule_def)
  moreover have "claimed_doses_per_day (asc ''q'' @ [178] @ asc ''h'') = None"
    by (simp add: claimed_doses_per_day_def str_isdecimal_def str_defs)
  ultimately show ?thesis by simp
qed

text \<open>
  Claim C8. A rule with no dosing basis and a frequency \<open>q<N>h\<close> whose \<open>N\<close> is the
  superscript two: the claim gives an empty result, \<open>calc_rule\<close> raises ValueError,
  because it parses the frequency before it looks at the basis.
\<close>

theorem missing_basis_superscript_frequency_raises:
  "calc_rule (DoseRule (asc ''genel'') (asc ''IV'') (asc ''q'' @ [178] @ asc ''h'')) pt =
     Inl ValueError"
proof -
  have "parse_frequency_to_doses_per_day (asc ''q'' @ [178] @ asc ''h'') = Inl ValueError"
    by (simp add: parse_frequency_to_doses_per_day_def str_defs)
  then show ?thesis by (simp add: calc_rule_def calc_amounts_def doses_per_day_def DoseRule_def)
qed

end
